theory Spec2Isabelle
  imports Complex_Main "HOL-Library.Log_Nat"
begin

section \<open>JavaScript values\<close>

subsection \<open>Numbers\<close>

text \<open>
  A JavaScript number is an IEEE 754 binary64 value. The finite ones are rationals
  (\<open>Num\<close>); the negative zero is not told apart from zero, which no comparison of the
  source does either. An arithmetic result is the exact rational result rounded to the
  nearest double, ties to the even significand (\<open>round_to_double\<close>): a double has a 53-bit
  significand, so a value in the binade \<open>[2^e, 2^(e+1))\<close> is rounded to a multiple of
  \<open>2^(e-52)\<close>, and to a multiple of \<open>2^(-1074)\<close> in the subnormal range. A result that
  rounds to \<open>2^1024\<close> or beyond is an infinity.
\<close>

datatype number = NaN | PosInf | NegInf | Num rat

text \<open>The binade of a positive rational: \<open>2^(ilog2 x) \<le> x < 2^(ilog2 x + 1)\<close>.\<close>

definition ilog2 :: "rat \<Rightarrow> int" where
  "ilog2 x = (let (p, q) = quotient_of x; d = bitlen p - bitlen q
              in if 2 powi d \<le> x then d else d - 1)"

definition round_half_even :: "rat \<Rightarrow> int" where
  "round_half_even z =
     (let f = \<lfloor>z\<rfloor>; r = z - of_int f
      in if r < 1 / 2 then f else if 1 / 2 < r then f + 1 else if even f then f else f + 1)"

definition round_to_double :: "rat \<Rightarrow> rat" where
  "round_to_double x =
     (if x = 0 then 0
      else let e = max (ilog2 \<bar>x\<bar> - 52) (- 1074)
           in of_int (round_half_even (x / 2 powi e)) * 2 powi e)"

definition to_number :: "rat \<Rightarrow> number" where
  "to_number x =
     (let r = round_to_double x
      in if 2 ^ 1024 \<le> r then PosInf else if r \<le> - (2 ^ 1024) then NegInf else Num r)"

text \<open>The operators \<^verbatim>\<open>*\<close> and \<^verbatim>\<open>/\<close> on numbers.\<close>

fun js_mul :: "number \<Rightarrow> number \<Rightarrow> number" where
  "js_mul NaN _ = NaN"
| "js_mul _ NaN = NaN"
| "js_mul (Num x) (Num y) = to_number (x * y)"
| "js_mul (Num x) PosInf = (if x = 0 then NaN else if 0 < x then PosInf else NegInf)"
| "js_mul (Num x) NegInf = (if x = 0 then NaN else if 0 < x then NegInf else PosInf)"
| "js_mul PosInf (Num y) = (if y = 0 then NaN else if 0 < y then PosInf else NegInf)"
| "js_mul NegInf (Num y) = (if y = 0 then NaN else if 0 < y then NegInf else PosInf)"
| "js_mul PosInf PosInf = PosInf"
| "js_mul PosInf NegInf = NegInf"
| "js_mul NegInf PosInf = NegInf"
| "js_mul NegInf NegInf = PosInf"

fun js_div :: "number \<Rightarrow> number \<Rightarrow> number" where
  "js_div NaN _ = NaN"
| "js_div _ NaN = NaN"
| "js_div (Num x) (Num y) =
     (if y = 0 then (if x = 0 then NaN else if 0 < x then PosInf else NegInf)
      else to_number (x / y))"
| "js_div (Num x) PosInf = Num 0"
| "js_div (Num x) NegInf = Num 0"
| "js_div PosInf (Num y) = (if 0 \<le> y then PosInf else NegInf)"
| "js_div NegInf (Num y) = (if 0 \<le> y then NegInf else PosInf)"
| "js_div PosInf _ = NaN"
| "js_div NegInf _ = NaN"

subsection \<open>Values and objects\<close>

text \<open>
  The values a filter or a parameter object holds, and an object as the list of its
  own properties in insertion order, which is the order of \<^verbatim>\<open>Object.keys\<close> and
  \<^verbatim>\<open>Object.entries\<close>. Reading a missing property gives \<^verbatim>\<open>undefined\<close>; an assignment
  replaces the value of a property the object has and appends a new one otherwise.
\<close>

datatype jsval = JUndefined | JNull | JString string | JArray "string list" | JNumber number

type_synonym jsobject = "(string \<times> jsval) list"

definition obj_keys :: "jsobject \<Rightarrow> string list" where
  "obj_keys obj = map fst obj"

definition obj_get :: "jsobject \<Rightarrow> string \<Rightarrow> jsval" where
  "obj_get obj key = (case map_of obj key of None \<Rightarrow> JUndefined | Some v \<Rightarrow> v)"

fun obj_set :: "jsobject \<Rightarrow> string \<Rightarrow> jsval \<Rightarrow> jsobject" where
  "obj_set [] key v = [(key, v)]"
| "obj_set ((k, w) # obj) key v =
     (if k = key then (k, v) # obj else (k, w) # obj_set obj key v)"

text \<open>The rest of an object destructuring \<^verbatim>\<open>{ key, ...rest } = obj\<close>.\<close>

definition obj_omit :: "string \<Rightarrow> jsobject \<Rightarrow> jsobject" where
  "obj_omit key obj = filter (\<lambda>(k, v). k \<noteq> key) obj"

text \<open>Truthiness, and \<^verbatim>\<open>a || b\<close> on values.\<close>

fun js_truthy :: "jsval \<Rightarrow> bool" where
  "js_truthy JUndefined = False"
| "js_truthy JNull = False"
| "js_truthy (JString s) = (s \<noteq> [])"
| "js_truthy (JArray xs) = True"
| "js_truthy (JNumber n) = (n \<noteq> NaN \<and> n \<noteq> Num 0)"

definition js_or :: "jsval \<Rightarrow> jsval \<Rightarrow> jsval" where
  "js_or a b = (if js_truthy a then a else b)"

text \<open>JavaScript's \<^verbatim>\<open>s || d\<close> on a string \<^verbatim>\<open>s\<close>: the empty string is falsy.\<close>

definition str_or :: "string \<Rightarrow> string \<Rightarrow> string" where
  "str_or s d = (if s = [] then d else s)"

text \<open>The same on an optional string, where \<^verbatim>\<open>undefined\<close> is falsy too.\<close>

definition opt_str_or :: "string option \<Rightarrow> string \<Rightarrow> string" where
  "opt_str_or s d = (case s of None \<Rightarrow> d | Some t \<Rightarrow> str_or t d)"

section \<open>Data model (services/types/raas.type)\<close>

text \<open>
  A field declared \<^verbatim>\<open>f?: T\<close> holds a \<^verbatim>\<open>T\<close> or \<^verbatim>\<open>undefined\<close> and is an
  \<open>option\<close> here (\<open>None\<close> is \<^verbatim>\<open>undefined\<close>). A field declared
  \<^verbatim>\<open>f?: T | null\<close> has the three states of \<open>nullable\<close>.
\<close>

datatype 'a nullable = Undefined | Null | Value 'a

text \<open>\<^verbatim>\<open>v ?? null\<close>\<close>

definition or_null :: "'a nullable \<Rightarrow> 'a nullable" where
  "or_null v = (case v of Undefined \<Rightarrow> Null | Null \<Rightarrow> Null | Value x \<Rightarrow> Value x)"

text \<open>
  The interfaces \<^verbatim>\<open>ProductCompositeKey\<close>, \<^verbatim>\<open>Product\<close> (to which
  \<^verbatim>\<open>ProductCreate\<close> and \<^verbatim>\<open>ProductUpdate\<close> are identical) and
  \<^verbatim>\<open>ProductProgress\<close>. Each has all the fields of the one before, which is what lets
  the source pass a \<^verbatim>\<open>ProductProgress\<close> where a \<^verbatim>\<open>Product\<close> or a
  \<^verbatim>\<open>ProductCompositeKey\<close> is expected.
\<close>

record ProductCompositeKey =
  amazon_profile_name :: string
  hanna_org_name :: string
  asin :: string
  category_name :: string
  raas_plan :: string
  start_date :: string
  marketplace :: "string option"

record Product = ProductCompositeKey +
  end_date :: string
  baseline_sales_rank :: "number nullable"
  target_acos :: "number nullable"
  target_ad_spend :: "number nullable"
  status :: "string option"

type_synonym ProductCreate = Product
type_synonym ProductUpdate = Product

record ProductProgress = Product +
  img_url :: "string option"
  days_remaining :: "number option"
  current_sales_rank :: "number option"
  climb_days_met :: "number option"
  days_taken :: "number option"
  final_status_date :: "string option"
  cyber_minigun_actions :: "number option"
  cyber_minigun_launch_groups :: "number option"
  campaigns_created_by_cyber_minigun :: "number option"
  adgroups_created_by_cyber_minigun :: "number option"
  smart_campaigns :: "number option"
  campaigns_created_by_smart_campaigns :: "number option"
  adgroups_created_by_smart_campaigns :: "number option"
  ad_spend_7d :: "number option"
  ad_sales_7d :: "number option"
  ad_orders_7d :: "number option"
  acos_7d :: "number option"
  ad_spend_14d :: "number option"
  ad_sales_14d :: "number option"
  ad_orders_14d :: "number option"
  acos_14d :: "number option"
  ad_spend_30d :: "number option"
  ad_sales_30d :: "number option"
  ad_orders_30d :: "number option"
  acos_30d :: "number option"
  ad_spend_rt :: "number option"
  ad_sales_rt :: "number option"
  ad_orders_rt :: "number option"
  acos_rt :: "number option"

record AdData =
  ad_spend :: "number option"
  ad_sales :: "number option"
  ad_orders :: "number option"
  acos :: "number option"

section \<open>Effects\<close>

text \<open>
  What a handler does besides changing the state it owns, in the order it does it: the
  requests it sends, the queries it invalidates in the query cache (by the first element
  of their key), the notifications it shows (by the key of their message, without its
  parameters), and what the response interceptor does to the session.
\<close>

datatype http_method = GET | POST | PUT

record request =
  req_method :: http_method
  url :: string
  params :: jsobject

datatype toast_kind = ToastInfo | ToastSuccess | ToastError | ToastWarning

datatype effect =
    Send request
  | InvalidateQueries string
  | RefetchLastUpdateTime
  | Toast toast_kind string
  | ClearAuth
  | RouterPush string
  | SetLocationHref string

text \<open>The request of \<^verbatim>\<open>axiosInstance.post('/progress/update')\<close>.\<close>

definition post_progress_update :: request where
  "post_progress_update = \<lparr>req_method = POST, url = ''/progress/update'', params = []\<rparr>"

fun is_send :: "effect \<Rightarrow> bool" where
  "is_send (Send r) = True"
| "is_send _ = False"

section \<open>HTTP client (composables/use-axios)\<close>

text \<open>
  An error as the response interceptor sees it: \<^verbatim>\<open>error.response?.status\<close> is the
  status of the response, if there was one. The handler runs with the module's
  \<^verbatim>\<open>globalRouter\<close> set or not, and always rejects with the error it was given
  (\<open>Inl\<close>); the handler of a fulfilled response returns it (\<open>Inr\<close>).
\<close>

record http_response =
  http_status :: int

record axios_error =
  response :: "http_response option"

definition response_status :: "axios_error \<Rightarrow> int option" where
  "response_status error = map_option http_status (response error)"

definition on_response_error ::
  "bool \<Rightarrow> axios_error \<Rightarrow> effect list \<times> (axios_error + http_response)" where
  "on_response_error globalRouter error =
     ((if response_status error = Some 401 then
         [ClearAuth,
          if globalRouter then RouterPush ''/auth/sign-in''
          else SetLocationHref ''/auth/sign-in'']
       else []),
      Inl error)"

definition on_response :: "http_response \<Rightarrow> effect list \<times> (axios_error + http_response)" where
  "on_response r = ([], Inr r)"

text \<open>The session teardown: the effects that clear the session or leave the page.\<close>

fun is_teardown :: "effect \<Rightarrow> bool" where
  "is_teardown ClearAuth = True"
| "is_teardown (RouterPush p) = True"
| "is_teardown (SetLocationHref p) = True"
| "is_teardown _ = False"

text \<open>The destinations of the navigations among some effects, in order.\<close>

fun navigations :: "effect list \<Rightarrow> string list" where
  "navigations [] = []"
| "navigations (RouterPush p # es) = p # navigations es"
| "navigations (SetLocationHref p # es) = p # navigations es"
| "navigations (e # es) = navigations es"

section \<open>Mutations (services/api/raas.api)\<close>

text \<open>
  The \<^verbatim>\<open>onSuccess\<close> handler of the create, update and cancel mutations, as the list of
  its effects with their times in milliseconds. The handler starts at \<open>now\<close> by posting
  to \<^verbatim>\<open>/progress/update\<close> and awaits the response, which comes \<open>latency\<close> later. If
  the post is rejected the await throws and the handler ends there. Otherwise it sets a
  timer of 2000 ms whose callback invalidates three queries.
\<close>

datatype mutation = CreateProduct | UpdateProduct | CancelProduct

datatype await_outcome = Fulfilled | Rejected

definition invalidate_after_delay :: "int \<Rightarrow> (int \<times> effect) list" where
  "invalidate_after_delay t =
     [(t + 2000, InvalidateQueries ''products''),
      (t + 2000, InvalidateQueries ''productProgress''),
      (t + 2000, InvalidateQueries ''lastUpdateTime'')]"

definition useCreateProduct_onSuccess :: "int \<Rightarrow> nat \<Rightarrow> await_outcome \<Rightarrow> (int \<times> effect) list" where
  "useCreateProduct_onSuccess now latency outcome =
     (now, Send post_progress_update) #
     (case outcome of
        Rejected \<Rightarrow> []
      | Fulfilled \<Rightarrow> invalidate_after_delay (now + int latency))"

definition useUpdateProduct_onSuccess :: "int \<Rightarrow> nat \<Rightarrow> await_outcome \<Rightarrow> (int \<times> effect) list" where
  "useUpdateProduct_onSuccess now latency outcome =
     (now, Send post_progress_update) #
     (case outcome of
        Rejected \<Rightarrow> []
      | Fulfilled \<Rightarrow> invalidate_after_delay (now + int latency))"

definition useCancelProduct_onSuccess :: "int \<Rightarrow> nat \<Rightarrow> await_outcome \<Rightarrow> (int \<times> effect) list" where
  "useCancelProduct_onSuccess now latency outcome =
     (now, Send post_progress_update) #
     (case outcome of
        Rejected \<Rightarrow> []
      | Fulfilled \<Rightarrow> invalidate_after_delay (now + int latency))"

definition mutation_onSuccess ::
  "mutation \<Rightarrow> int \<Rightarrow> nat \<Rightarrow> await_outcome \<Rightarrow> (int \<times> effect) list" where
  "mutation_onSuccess m =
     (case m of
        CreateProduct \<Rightarrow> useCreateProduct_onSuccess
      | UpdateProduct \<Rightarrow> useUpdateProduct_onSuccess
      | CancelProduct \<Rightarrow> useCancelProduct_onSuccess)"

fun is_invalidation :: "effect \<Rightarrow> bool" where
  "is_invalidation (InvalidateQueries k) = True"
| "is_invalidation _ = False"

section \<open>Filters and query parameters (product-table, raas.api, filter-form)\<close>

text \<open>
  The table's \<^verbatim>\<open>pagination\<close> ref, and its computed \<^verbatim>\<open>queryParams\<close>: the page and
  the page size, then every key of \<^verbatim>\<open>props.filters\<close>, in order, that is not
  \<^verbatim>\<open>ad_window\<close> and whose value is none of \<^verbatim>\<open>undefined\<close>, \<^verbatim>\<open>null\<close> and the
  empty string.
\<close>

record pagination =
  current :: number
  pageSize :: number
  total :: number

definition queryParams :: "jsobject \<Rightarrow> pagination \<Rightarrow> jsobject" where
  "queryParams filters pg =
     fold (\<lambda>key params.
             let v = obj_get filters key
             in if key \<noteq> ''ad_window'' \<and> v \<noteq> JUndefined \<and> v \<noteq> JNull \<and> v \<noteq> JString ''''
                then obj_set params key v else params)
          (obj_keys filters)
          [(''page'', JNumber (current pg)), (''page_size'', JNumber (pageSize pg))]"

text \<open>
  The request \<^verbatim>\<open>useGetProductProgress\<close> sends for the parameters it is given: a GET of
  \<^verbatim>\<open>/product-progress\<close> with the parameters but \<^verbatim>\<open>ad_window\<close>.
\<close>

definition useGetProductProgress :: "jsobject \<Rightarrow> request" where
  "useGetProductProgress rawParams =
     (let restParams = obj_omit ''ad_window'' rawParams
      in \<lparr>req_method = GET, url = ''/product-progress'', params = restParams\<rparr>)"



section \<open>Windowed advertising metrics (product-table, \<^verbatim>\<open>getAdData\<close>)\<close>

definition currentAdWindow :: "jsobject \<Rightarrow> jsval" where
  "currentAdWindow filters = js_or (obj_get filters ''ad_window'') (JString ''30d'')"

text \<open>The property read \<^verbatim>\<open>product[name]\<close>, for the names \<^verbatim>\<open>getAdData\<close> builds.\<close>

definition product_get :: "ProductProgress \<Rightarrow> string \<Rightarrow> number option" where
  "product_get product name =
     (if name = ''ad_spend_7d'' then ad_spend_7d product
      else if name = ''ad_sales_7d'' then ad_sales_7d product
      else if name = ''ad_orders_7d'' then ad_orders_7d product
      else if name = ''acos_7d'' then acos_7d product
      else if name = ''ad_spend_14d'' then ad_spend_14d product
      else if name = ''ad_sales_14d'' then ad_sales_14d product
      else if name = ''ad_orders_14d'' then ad_orders_14d product
      else if name = ''acos_14d'' then acos_14d product
      else if name = ''ad_spend_30d'' then ad_spend_30d product
      else if name = ''ad_sales_30d'' then ad_sales_30d product
      else if name = ''ad_orders_30d'' then ad_orders_30d product
      else if name = ''acos_30d'' then acos_30d product
      else if name = ''ad_spend_rt'' then ad_spend_rt product
      else if name = ''ad_sales_rt'' then ad_sales_rt product
      else if name = ''ad_orders_rt'' then ad_orders_rt product
      else if name = ''acos_rt'' then acos_rt product
      else None)"

definition getAdData :: "jsobject \<Rightarrow> ProductProgress \<Rightarrow> AdData" where
  "getAdData filters product =
     (let adWindow = currentAdWindow filters;
          prefix = (if adWindow = JString ''7d'' then ''7d''
                    else if adWindow = JString ''14d'' then ''14d''
                    else if adWindow = JString ''rt'' then ''rt'' else ''30d'')
      in \<lparr>ad_spend = product_get product (''ad_spend_'' @ prefix),
          ad_sales = product_get product (''ad_sales_'' @ prefix),
          ad_orders = product_get product (''ad_orders_'' @ prefix),
          acos = product_get product (''acos_'' @ prefix)\<rparr>)"

section \<open>Composite key (product-table, \<^verbatim>\<open>compositeKey\<close>)\<close>

definition compositeKey :: "'a ProductCompositeKey_scheme \<Rightarrow> string" where
  "compositeKey row =
     (let asins = str_or (asin row) ''''
      in amazon_profile_name row @ ''||'' @ hanna_org_name row @ ''||'' @ asins @ ''||''
         @ category_name row @ ''||'' @ raas_plan row @ ''||'' @ start_date row)"

text \<open>
  A field value that cannot be confused with the delimiter: it has no two consecutive
  bars and does not end in a bar.
\<close>

fun delim_free :: "string \<Rightarrow> bool" where
  "delim_free [] = True"
| "delim_free [c] = (c \<noteq> CHR ''|'')"
| "delim_free (c # d # cs) = ((c \<noteq> CHR ''|'' \<or> d \<noteq> CHR ''|'') \<and> delim_free (d # cs))"

definition same_identity ::
  "'a ProductCompositeKey_scheme \<Rightarrow> 'b ProductCompositeKey_scheme \<Rightarrow> bool" where
  "same_identity p q \<longleftrightarrow>
     amazon_profile_name p = amazon_profile_name q \<and> hanna_org_name p = hanna_org_name q
     \<and> asin p = asin q \<and> category_name p = category_name q
     \<and> raas_plan p = raas_plan q \<and> start_date p = start_date q"

definition key_fields_delim_free :: "'a ProductCompositeKey_scheme \<Rightarrow> bool" where
  "key_fields_delim_free p \<longleftrightarrow>
     delim_free (amazon_profile_name p) \<and> delim_free (hanna_org_name p) \<and> delim_free (asin p)
     \<and> delim_free (category_name p) \<and> delim_free (raas_plan p)"

section \<open>Row selection (product-table)\<close>

text \<open>
  A rendered row; its fields \<^verbatim>\<open>_key\<close> and \<^verbatim>\<open>asin\<close> are \<open>row_key\<close> and
  \<open>row_asin\<close> here.
\<close>

record FlattenedRow =
  row_key :: string
  product :: ProductProgress
  row_asin :: string



definition toggleSelectRow :: "string \<Rightarrow> bool \<Rightarrow> string set \<Rightarrow> string set" where
  "toggleSelectRow rowKey checked selectedRowKeys =
     (if checked then insert rowKey selectedRowKeys else selectedRowKeys - {rowKey})"



section \<open>The add and edit modal (product-table)\<close>

text \<open>
  The refs the two handlers write. The title is kept as its message key; the list of
  Keepa categories, which both handlers only empty, is left out.
\<close>

record modal_state =
  modalOpen :: bool
  modalTitle :: string
  isEditing :: bool
  formData :: ProductCreate
  bsrPending :: bool
  keepaLoading :: bool
  keepaFetched :: bool

definition handleEdit :: "ProductProgress \<Rightarrow> modal_state \<Rightarrow> modal_state" where
  "handleEdit row st =
     st\<lparr>modalTitle := ''raas.modal.editProduct'',
        isEditing := True,
        formData :=
          \<lparr>amazon_profile_name = str_or (amazon_profile_name row) '''',
           hanna_org_name = str_or (hanna_org_name row) '''',
           asin = str_or (asin row) '''',
           category_name = str_or (category_name row) '''',
           raas_plan = str_or (raas_plan row) '''',
           start_date = str_or (start_date row) '''',
           marketplace = Some (opt_str_or (marketplace row) ''US''),
           end_date = str_or (end_date row) '''',
           baseline_sales_rank = or_null (baseline_sales_rank row),
           target_acos =
             (case target_acos row of
                Value x \<Rightarrow> Value (js_mul x (Num 100))
              | _ \<Rightarrow> Null),
           target_ad_spend = or_null (target_ad_spend row),
           status = Some (opt_str_or (status row) ''ONGOING'')\<rparr>,
        bsrPending := False,
        keepaLoading := False,
        keepaFetched := False,
        modalOpen := True\<rparr>"

text \<open>
  \<^verbatim>\<open>handleModalOk\<close> builds the payload and hands it to the update mutation when
  editing and to the create mutation otherwise. The payload has a \<^verbatim>\<open>status\<close> only
  when editing.
\<close>

definition handleModalOk :: "modal_state \<Rightarrow> mutation \<times> ProductCreate" where
  "handleModalOk st =
     (let payload =
            \<lparr>amazon_profile_name = amazon_profile_name (formData st),
             hanna_org_name = hanna_org_name (formData st),
             asin = asin (formData st),
             category_name = category_name (formData st),
             raas_plan = raas_plan (formData st),
             start_date = start_date (formData st),
             marketplace = marketplace (formData st),
             end_date = end_date (formData st),
             baseline_sales_rank = baseline_sales_rank (formData st),
             target_acos =
               (case target_acos (formData st) of
                  Value x \<Rightarrow> Value (js_div x (Num 100))
                | _ \<Rightarrow> Null),
             target_ad_spend = target_ad_spend (formData st),
             status = (if isEditing st then status (formData st) else None)\<rparr>;
          mutateFn = (if isEditing st then UpdateProduct else CreateProduct)
      in (mutateFn, payload))"

section \<open>Manual refresh (product-table)\<close>

text \<open>
  The state of the refresh button: the mutation's \<^verbatim>\<open>isPending\<close>, the two refs,
  whether the cooldown's interval timer is set, and the \<^verbatim>\<open>last_updated_at\<close> of the
  last-update-time query as \<^verbatim>\<open>new Date(...).getTime()\<close> reads it, in milliseconds
  (\<open>None\<close> when the query has no data, or the field is null or empty;
  \<open>InvalidDate\<close> when the string is not a date, whose time is NaN).
\<close>

datatype js_time = InvalidDate | TimeMs int

record refresh_state =
  isUpdating :: bool
  hasTriggeredUpdate :: bool
  updateCooldownRemaining :: int
  updateCooldownTimer :: bool
  last_updated_at :: "js_time option"

definition UPDATE_COOLDOWN_SECONDS :: int where
  "UPDATE_COOLDOWN_SECONDS = 60"

definition MIN_UPDATE_INTERVAL :: int where
  "MIN_UPDATE_INTERVAL = 30"

text \<open>
  \<^verbatim>\<open>timeSinceLastUpdate\<close> is \<^verbatim>\<open>Infinity\<close>, NaN or a whole number of seconds. Its
  argument \<open>now\<close> is what \<^verbatim>\<open>Date.now()\<close> returned when the computed value was
  evaluated, in milliseconds; both times are integers far below \<open>2^53\<close>, where
  \<^verbatim>\<open>Math.floor((a - b) / 1000)\<close> is the integer quotient rounded down.
\<close>

datatype elapsed = Infinity | NotANumber | Seconds int

definition timeSinceLastUpdate :: "int \<Rightarrow> refresh_state \<Rightarrow> elapsed" where
  "timeSinceLastUpdate now st =
     (case last_updated_at st of
        None \<Rightarrow> Infinity
      | Some InvalidDate \<Rightarrow> NotANumber
      | Some (TimeMs lastUpdate) \<Rightarrow> Seconds ((now - lastUpdate) div 1000))"

text \<open>The comparison \<^verbatim>\<open>t < n\<close>: false for \<^verbatim>\<open>Infinity\<close> and for NaN.\<close>

fun elapsed_less :: "elapsed \<Rightarrow> int \<Rightarrow> bool" where
  "elapsed_less Infinity n = False"
| "elapsed_less NotANumber n = False"
| "elapsed_less (Seconds s) n = (s < n)"

definition isInCooldown :: "refresh_state \<Rightarrow> bool" where
  "isInCooldown st = (0 < updateCooldownRemaining st)"

definition isUpdateDisabled :: "int \<Rightarrow> refresh_state \<Rightarrow> bool" where
  "isUpdateDisabled now st =
     (if isUpdating st \<or> hasTriggeredUpdate st then True
      else if isInCooldown st then True
      else if elapsed_less (timeSinceLastUpdate now st) MIN_UPDATE_INTERVAL then True
      else False)"

text \<open>
  \<^verbatim>\<open>handleUpdateData\<close>. When the button is disabled it only shows, for a remaining
  time strictly between 0 and the cooldown, a notification (\<^verbatim>\<open>Math.max(0, 60 - t)\<close> is
  0 for \<^verbatim>\<open>Infinity\<close> and NaN for NaN, and neither passes the test). Otherwise it sets
  \<^verbatim>\<open>hasTriggeredUpdate\<close> and runs the trigger mutation, which posts to
  \<^verbatim>\<open>/progress/update\<close>.
\<close>

definition handleUpdateData :: "int \<Rightarrow> refresh_state \<Rightarrow> refresh_state \<times> effect list" where
  "handleUpdateData now st =
     (if isUpdateDisabled now st then
        (case timeSinceLastUpdate now st of
           Seconds s \<Rightarrow>
             (let remaining = max 0 (UPDATE_COOLDOWN_SECONDS - s)
              in if 0 < remaining \<and> remaining < UPDATE_COOLDOWN_SECONDS
                 then (st, [Toast ToastInfo ''raas.messages.updateTooFrequent''])
                 else (st, []))
         | _ \<Rightarrow> (st, []))
      else (st\<lparr>hasTriggeredUpdate := True\<rparr>, [Send post_progress_update]))"

text \<open>
  The callbacks of the trigger: on a response, success starts the cooldown and refetches
  the last update time; a refusal and an error only notify (a refusal with the server's
  message, when it has one); in every case \<^verbatim>\<open>hasTriggeredUpdate\<close> is reset. The
  cooldown's timer counts down once a second and is cleared when the count reaches 0.
\<close>

datatype trigger_outcome = Responded bool | Errored

definition startUpdateCooldown :: "refresh_state \<Rightarrow> refresh_state" where
  "startUpdateCooldown st =
     st\<lparr>updateCooldownRemaining := UPDATE_COOLDOWN_SECONDS, updateCooldownTimer := True\<rparr>"

definition triggerSettled :: "trigger_outcome \<Rightarrow> refresh_state \<Rightarrow> refresh_state \<times> effect list" where
  "triggerSettled outcome st =
     (case outcome of
        Responded True \<Rightarrow>
          ((startUpdateCooldown st)\<lparr>hasTriggeredUpdate := False\<rparr>,
           [Toast ToastSuccess ''raas.messages.updateDataSuccess'', RefetchLastUpdateTime])
      | Responded False \<Rightarrow>
          (st\<lparr>hasTriggeredUpdate := False\<rparr>, [Toast ToastError ''raas.messages.updateDataFailed''])
      | Errored \<Rightarrow>
          (st\<lparr>hasTriggeredUpdate := False\<rparr>, [Toast ToastError ''raas.messages.updateDataFailed'']))"

definition cooldownTick :: "refresh_state \<Rightarrow> refresh_state" where
  "cooldownTick st =
     (if updateCooldownTimer st then
        (let remaining = updateCooldownRemaining st - 1
         in st\<lparr>updateCooldownRemaining := remaining,
               updateCooldownTimer := (if remaining \<le> 0 then False else True)\<rparr>)
      else st)"

section \<open>Example data\<close>

text \<open>A row of the product-progress list, for the examples below.\<close>

definition example_row :: ProductProgress where
  "example_row =
     \<lparr>amazon_profile_name = ''Acme US'', hanna_org_name = ''Acme'', asin = ''B0EXAMPLE1'',
      category_name = ''Toys'', raas_plan = ''Climb Plan'', start_date = ''2024-01-01'',
      marketplace = Some ''US'', end_date = ''2024-03-31'',
      baseline_sales_rank = Value (Num 5000), target_acos = Value (Num (1 / 4)),
      target_ad_spend = Null, status = Some ''ONGOING'',
      img_url = None, days_remaining = Some (Num 12), current_sales_rank = Some (Num 3200),
      climb_days_met = Some (Num 3), days_taken = None, final_status_date = None,
      cyber_minigun_actions = None, cyber_minigun_launch_groups = None,
      campaigns_created_by_cyber_minigun = None, adgroups_created_by_cyber_minigun = None,
      smart_campaigns = None, campaigns_created_by_smart_campaigns = None,
      adgroups_created_by_smart_campaigns = None,
      ad_spend_7d = Some (Num 70), ad_sales_7d = Some (Num 700),
      ad_orders_7d = Some (Num 7), acos_7d = Some (Num (1 / 10)),
      ad_spend_14d = Some (Num 140), ad_sales_14d = Some (Num 1120),
      ad_orders_14d = Some (Num 14), acos_14d = Some (Num (1 / 8)),
      ad_spend_30d = Some (Num 300), ad_sales_30d = Some (Num 1200),
      ad_orders_30d = Some (Num 30), acos_30d = Some (Num (1 / 4)),
      ad_spend_rt = Some (Num 5), ad_sales_rt = Some (Num 10),
      ad_orders_rt = Some (Num 1), acos_rt = Some (Num (1 / 2))\<rparr>"

text \<open>The refresh button at rest, the data last updated at 1700000000000 ms.\<close>

definition example_refresh :: refresh_state where
  "example_refresh =
     \<lparr>isUpdating = False, hasTriggeredUpdate = False, updateCooldownRemaining = 0,
      updateCooldownTimer = False, last_updated_at = Some (TimeMs 1700000000000)\<rparr>"

text \<open>The modal as it is before it is first opened.\<close>

definition example_modal :: modal_state where
  "example_modal =
     \<lparr>modalOpen = False, modalTitle = '''', isEditing = False,
      formData =
        \<lparr>amazon_profile_name = '''', hanna_org_name = '''', asin = '''', category_name = '''',
         raas_plan = '''', start_date = '''', marketplace = Some ''US'', end_date = '''',
         baseline_sales_rank = Null, target_acos = Null, target_ad_spend = Null,
         status = None\<rparr>,
      bsrPending = False, keepaLoading = False, keepaFetched = False\<rparr>"

section \<open>Properties\<close>

subsection \<open>Numbers\<close>

text \<open>
  The binade is the one the definition names, and rounding moves a value below \<open>2^k\<close>
  by at most half a unit in the last place of that range.
\<close>

lemma pow2_pos: "0 < (2::rat) powi e"
  by (simp add: zero_less_power_int)

lemma pow2_nat: "0 \<le> e \<Longrightarrow> (2::rat) powi e = 2 ^ nat e"
  by (simp add: power_int_def)

lemma ratio_bounds:
  fixes p q :: int
  assumes "0 < p" "0 < q"
  shows "(2::rat) powi (bitlen p - bitlen q - 1) \<le> of_int p / of_int q"
    and "(of_int p / of_int q :: rat) < 2 powi (bitlen p - bitlen q + 1)"
proof -
  from bitlen_bounds [OF assms(1)]
  have p1: "2 ^ nat (bitlen p - 1) \<le> p" and p2: "p < 2 ^ nat (bitlen p)" by simp_all
  from bitlen_bounds [OF assms(2)]
  have q1: "2 ^ nat (bitlen q - 1) \<le> q" and q2: "q < 2 ^ nat (bitlen q)" by simp_all
  from assms have bp: "1 \<le> bitlen p" and bq: "1 \<le> bitlen q"
    using bitlen_eq_zero_iff [of p] bitlen_eq_zero_iff [of q] bitlen_nonneg [of p] bitlen_nonneg [of q]
    by linarith+
  have P1: "(2::rat) powi (bitlen p - 1) \<le> of_int p"
  proof -
    from p1 have "(of_int (2 ^ nat (bitlen p - 1)) :: rat) \<le> of_int p"
      by (simp only: of_int_le_iff)
    with bp show ?thesis by (simp add: pow2_nat)
  qed
  have P2: "(of_int p :: rat) < 2 powi (bitlen p)"
  proof -
    from p2 have "(of_int p :: rat) < of_int (2 ^ nat (bitlen p))"
      by (simp only: of_int_less_iff)
    with bp show ?thesis by (simp add: pow2_nat)
  qed
  have Q1: "(2::rat) powi (bitlen q - 1) \<le> of_int q"
  proof -
    from q1 have "(of_int (2 ^ nat (bitlen q - 1)) :: rat) \<le> of_int q"
      by (simp only: of_int_le_iff)
    with bq show ?thesis by (simp add: pow2_nat)
  qed
  have Q2: "(of_int q :: rat) < 2 powi (bitlen q)"
  proof -
    from q2 have "(of_int q :: rat) < of_int (2 ^ nat (bitlen q))"
      by (simp only: of_int_less_iff)
    with bq show ?thesis by (simp add: pow2_nat)
  qed
  have qpos: "(0::rat) < of_int q" using assms by simp
  have ppos: "(0::rat) < of_int p" using assms by simp
  have "(2::rat) powi (bitlen p - bitlen q - 1) = 2 powi (bitlen p - 1) / 2 powi (bitlen q)"
    by (simp add: power_int_diff)
  also have "\<dots> \<le> of_int p / 2 powi (bitlen q)"
    using P1 pow2_pos [of "bitlen q"] by (simp add: divide_right_mono)
  also have "\<dots> \<le> of_int p / of_int q"
    using Q2 qpos ppos by (simp add: frac_le)
  finally show "(2::rat) powi (bitlen p - bitlen q - 1) \<le> of_int p / of_int q" .
  have "(of_int p / of_int q :: rat) < 2 powi (bitlen p) / of_int q"
    using P2 qpos by (simp add: divide_strict_right_mono)
  also have "\<dots> \<le> 2 powi (bitlen p) / 2 powi (bitlen q - 1)"
    using Q1 pow2_pos [of "bitlen q - 1"] pow2_pos [of "bitlen p"] by (simp add: frac_le)
  also have "\<dots> = 2 powi (bitlen p - (bitlen q - 1))"
    by (simp only: power_int_diff [of "2::rat", simplified])
  also have "\<dots> = 2 powi (bitlen p - bitlen q + 1)"
    by (simp add: algebra_simps)
  finally show "(of_int p / of_int q :: rat) < 2 powi (bitlen p - bitlen q + 1)" .
qed

lemma ilog2_bounds:
  assumes "0 < x"
  shows "2 powi (ilog2 x) \<le> x" and "x < 2 powi (ilog2 x + 1)"
proof -
  obtain p q where pq: "quotient_of x = (p, q)" by (cases "quotient_of x")
  then have q: "0 < q" by (rule quotient_of_denom_pos)
  from pq have x: "x = of_int p / of_int q" by (rule quotient_of_div)
  with assms q have p: "0 < p" by (simp add: zero_less_divide_iff)
  let ?d = "bitlen p - bitlen q"
  from ratio_bounds [OF p q] x
  have lo: "2 powi (?d - 1) \<le> x" and hi: "x < 2 powi (?d + 1)" by simp_all
  show "2 powi (ilog2 x) \<le> x"
    using lo by (simp add: ilog2_def pq Let_def)
  show "x < 2 powi (ilog2 x + 1)"
    using hi by (auto simp add: ilog2_def pq Let_def not_le)
qed

lemma ilog2_less:
  assumes "0 < x" "x < 2 powi k"
  shows "ilog2 x < k"
proof (rule ccontr)
  assume "\<not> ilog2 x < k"
  then have "k \<le> ilog2 x" by simp
  then have "(2::rat) powi k \<le> 2 powi (ilog2 x)"
    by (simp add: power_int_increasing)
  with ilog2_bounds(1) [OF assms(1)] assms(2) show False by simp
qed

lemma round_half_even_error: "\<bar>of_int (round_half_even z) - z\<bar> \<le> 1 / 2"
proof -
  have "of_int \<lfloor>z\<rfloor> \<le> z" "z < of_int \<lfloor>z\<rfloor> + 1" by linarith+
  then show ?thesis
    by (auto simp: round_half_even_def Let_def abs_le_iff)
qed

lemma round_to_double_error:
  assumes "0 \<le> x" "x < 2 powi k" "- 1021 \<le> k"
  shows "\<bar>round_to_double x - x\<bar> \<le> 2 powi (k - 54)"
proof (cases "x = 0")
  case True
  then show ?thesis using pow2_pos [of "k - 54"] by (simp add: round_to_double_def)
next
  case False
  with assms(1) have pos: "0 < x" by simp
  define e where "e = max (ilog2 \<bar>x\<bar> - 52) (- 1074)"
  from ilog2_less [OF pos assms(2)] assms(3) pos have e: "e \<le> k - 53"
    by (simp add: e_def)
  have rd: "round_to_double x = of_int (round_half_even (x / 2 powi e)) * 2 powi e"
    using False by (simp add: round_to_double_def e_def Let_def)
  have "\<bar>round_to_double x - x\<bar>
      = \<bar>of_int (round_half_even (x / 2 powi e)) - x / 2 powi e\<bar> * 2 powi e"
  proof -
    have "round_to_double x - x
        = (of_int (round_half_even (x / 2 powi e)) - x / 2 powi e) * 2 powi e"
      using pow2_pos [of e] by (simp add: rd field_simps)
    then show ?thesis using pow2_pos [of e] by (simp add: abs_mult)
  qed
  also have "\<dots> \<le> (1 / 2) * 2 powi e"
    using round_half_even_error [of "x / 2 powi e"] pow2_pos [of e]
    by (simp add: mult_right_mono del: times_divide_eq_left)
  also have "\<dots> = 2 powi (e - 1)"
    by (simp add: power_int_diff)
  also have "\<dots> \<le> 2 powi (k - 54)"
    using e by (simp add: power_int_increasing)
  finally show ?thesis .
qed

lemma round_to_double_nonneg: "0 \<le> x \<Longrightarrow> 0 \<le> round_to_double x"
proof -
  assume x: "0 \<le> x"
  have "0 \<le> round_half_even z" if "0 \<le> z" for z
  proof -
    from that have "0 \<le> \<lfloor>z\<rfloor>" by simp
    then show ?thesis by (simp add: round_half_even_def Let_def)
  qed
  then show ?thesis using x pow2_pos
    by (simp add: round_to_double_def Let_def zero_le_mult_iff zero_le_divide_iff less_imp_le)
qed

lemma ilog2_eqI:
  assumes "0 < x" "2 powi e \<le> x" "x < 2 powi (e + 1)"
  shows "ilog2 x = e"
proof (rule antisym)
  from ilog2_less [OF assms(1) assms(3)] show "ilog2 x \<le> e" by simp
next
  show "e \<le> ilog2 x"
  proof (rule ccontr)
    assume "\<not> e \<le> ilog2 x"
    then have "ilog2 x + 1 \<le> e" by simp
    then have "(2::rat) powi (ilog2 x + 1) \<le> 2 powi e"
      by (simp add: power_int_increasing)
    with ilog2_bounds(2) [OF assms(1)] assms(2) show False by simp
  qed
qed

lemma round_to_double_in_binade:
  assumes "0 < x" "2 powi e \<le> x" "x < 2 powi (e + 1)" "- 1022 \<le> e"
    and "round_half_even (x / 2 powi (e - 52)) = n"
  shows "round_to_double x = of_int n * 2 powi (e - 52)"
proof -
  from assms(1-3) have "ilog2 x = e" by (rule ilog2_eqI)
  with assms(1) have "ilog2 \<bar>x\<bar> = e" by simp
  moreover from assms(4) have "max (e - 52) (- 1074) = e - 52" by simp
  moreover from assms(1) have "x \<noteq> 0" by simp
  ultimately have "round_to_double x
      = of_int (round_half_even (x / 2 powi (e - 52))) * 2 powi (e - 52)"
    by (simp only: round_to_double_def Let_def if_False)
  with assms(5) show ?thesis by simp
qed

lemma to_number_finite:
  "- (2 ^ 1024) < round_to_double x \<Longrightarrow> round_to_double x < 2 ^ 1024
     \<Longrightarrow> to_number x = Num (round_to_double x)"
  by (simp add: to_number_def Let_def)

lemma floor_rat_numeral: "\<lfloor>numeral a / numeral b :: rat\<rfloor> = numeral a div numeral b"
  using floor_divide_of_int_eq [of "numeral a" "numeral b", where ?'a = rat] by simp

lemma round_quarter: "round_to_double (1 / 4) = 1 / 4"
  using round_to_double_in_binade [of "1 / 4" "- 2" "2 ^ 52"]
  by (simp add: power_int_def round_half_even_def Let_def power_divide floor_rat_numeral)

lemma round_25: "round_to_double 25 = 25"
  using round_to_double_in_binade [of 25 4 "25 * 2 ^ 48"]
  by (simp add: power_int_def round_half_even_def Let_def power_divide floor_rat_numeral)

lemma round_7_1000: "round_to_double (7 / 1000) = 8070450532247929 / 2 ^ 60"
  using round_to_double_in_binade [of "7 / 1000" "- 8" 8070450532247929]
  by (simp add: power_int_def round_half_even_def Let_def power_divide floor_rat_numeral)

lemma round_times_100:
  "round_to_double (8070450532247929 / 2 ^ 60 * 100) = 6305039478318695 / 2 ^ 53"
  using round_to_double_in_binade [of "8070450532247929 / 2 ^ 60 * 100" "- 1" 6305039478318695]
  by (simp add: power_int_def round_half_even_def Let_def power_divide floor_rat_numeral)

lemma round_over_100:
  "round_to_double (6305039478318695 / 2 ^ 53 / 100) = 4035225266123965 / 2 ^ 59"
  using round_to_double_in_binade [of "6305039478318695 / 2 ^ 53 / 100" "- 8" 8070450532247930]
  by (simp add: power_int_def round_half_even_def Let_def power_divide floor_rat_numeral)

subsection \<open>Objects\<close>

lemma obj_keys_set: "set (obj_keys (obj_set obj k v)) = insert k (set (obj_keys obj))"
proof (induction obj)
  case Nil
  show ?case by (simp add: obj_keys_def)
next
  case (Cons e obj)
  obtain k' w where e: "e = (k', w)" by (cases e)
  from Cons.IH show ?case
    unfolding e obj_keys_def by (cases "k' = k") auto
qed

lemma obj_keys_omit: "set (obj_keys (obj_omit k obj)) = set (obj_keys obj) - {k}"
  by (induction obj) (auto simp: obj_keys_def obj_omit_def)


subsection \<open>Composite key\<close>

lemma str_or_empty [simp]: "str_or s [] = s"
  by (simp add: str_or_def)

lemma delim_free_tl: "delim_free (c # cs) \<Longrightarrow> delim_free cs"
  by (cases cs) auto

lemma delim_split_unique:
  "delim_free a \<Longrightarrow> delim_free b \<Longrightarrow> a @ ''||'' @ r = b @ ''||'' @ s \<Longrightarrow> a = b \<and> r = s"
proof (induction a arbitrary: b)
  case Nil
  show ?case
  proof (cases b)
    case Nil
    with Nil.prems show ?thesis by simp
  next
    case (Cons c cs)
    with Nil.prems show ?thesis by (cases cs) auto
  qed
next
  case (Cons x xs)
  show ?case
  proof (cases b)
    case Nil
    with Cons.prems show ?thesis by (cases xs) auto
  next
    case (Cons c cs)
    with Cons.prems have "x = c" and eq: "xs @ ''||'' @ r = cs @ ''||'' @ s" by auto
    from Cons.prems Cons have "delim_free xs" "delim_free cs"
      by (auto dest: delim_free_tl)
    with Cons.IH eq have "xs = cs \<and> r = s" by blast
    with \<open>x = c\<close> Cons show ?thesis by simp
  qed
qed

text \<open>
  C1 (as stated). Two Product-shaped objects that differ in an identity field have
  different composite keys. This fails when a field contains the delimiter: the profile
  name \<^verbatim>\<open>a||b\<close> with the organisation \<^verbatim>\<open>c\<close> and the profile name \<^verbatim>\<open>a\<close> with the
  organisation \<^verbatim>\<open>b||c\<close> give the same key.
\<close>

theorem compositeKey_collision:
  "\<not> same_identity
       \<lparr>amazon_profile_name = ''a||b'', hanna_org_name = ''c'', asin = ''B01'',
        category_name = ''Toys'', raas_plan = ''Climb Plan'', start_date = ''2024-01-01'',
        marketplace = None\<rparr>
       \<lparr>amazon_profile_name = ''a'', hanna_org_name = ''b||c'', asin = ''B01'',
        category_name = ''Toys'', raas_plan = ''Climb Plan'', start_date = ''2024-01-01'',
        marketplace = None\<rparr>
   \<and> compositeKey
       \<lparr>amazon_profile_name = ''a||b'', hanna_org_name = ''c'', asin = ''B01'',
        category_name = ''Toys'', raas_plan = ''Climb Plan'', start_date = ''2024-01-01'',
        marketplace = None\<rparr>
     = compositeKey
       \<lparr>amazon_profile_name = ''a'', hanna_org_name = ''b||c'', asin = ''B01'',
        category_name = ''Toys'', raas_plan = ''Climb Plan'', start_date = ''2024-01-01'',
        marketplace = None\<rparr>"
  by (simp add: same_identity_def compositeKey_def)

text \<open>
  C1 (amended). Objects with the same six identity fields have the same key; and when
  none of the first five identity fields of either object contains \<^verbatim>\<open>||\<close> or ends in
  \<^verbatim>\<open>|\<close> (in particular when no field contains a bar at all), equal keys force equal
  identity fields, so objects that differ in an identity field have different keys.
\<close>

theorem compositeKey_injective:
  "(same_identity p q \<longrightarrow> compositeKey p = compositeKey q)
   \<and> (key_fields_delim_free p \<and> key_fields_delim_free q \<and> \<not> same_identity p q
        \<longrightarrow> compositeKey p \<noteq> compositeKey q)"
proof (intro conjI impI)
  assume "same_identity p q"
  then show "compositeKey p = compositeKey q"
    by (simp add: same_identity_def compositeKey_def)
next
  assume h: "key_fields_delim_free p \<and> key_fields_delim_free q \<and> \<not> same_identity p q"
  show "compositeKey p \<noteq> compositeKey q"
  proof
    assume k: "compositeKey p = compositeKey q"
    from h have fp: "delim_free (amazon_profile_name p)" "delim_free (hanna_org_name p)"
        "delim_free (asin p)" "delim_free (category_name p)" "delim_free (raas_plan p)"
      and fq: "delim_free (amazon_profile_name q)" "delim_free (hanna_org_name q)"
        "delim_free (asin q)" "delim_free (category_name q)" "delim_free (raas_plan q)"
      by (simp_all add: key_fields_delim_free_def)
    from k have k1: "amazon_profile_name p @ ''||'' @
        (hanna_org_name p @ ''||'' @ asin p @ ''||'' @ category_name p @ ''||''
           @ raas_plan p @ ''||'' @ start_date p)
      = amazon_profile_name q @ ''||'' @
        (hanna_org_name q @ ''||'' @ asin q @ ''||'' @ category_name q @ ''||''
           @ raas_plan q @ ''||'' @ start_date q)"
      by (simp add: compositeKey_def)
    from delim_split_unique [OF fp(1) fq(1) k1]
    have e1: "amazon_profile_name p = amazon_profile_name q"
      and k2: "hanna_org_name p @ ''||'' @
          (asin p @ ''||'' @ category_name p @ ''||'' @ raas_plan p @ ''||'' @ start_date p)
        = hanna_org_name q @ ''||'' @
          (asin q @ ''||'' @ category_name q @ ''||'' @ raas_plan q @ ''||'' @ start_date q)"
      by simp_all
    from delim_split_unique [OF fp(2) fq(2) k2]
    have e2: "hanna_org_name p = hanna_org_name q"
      and k3: "asin p @ ''||'' @ (category_name p @ ''||'' @ raas_plan p @ ''||'' @ start_date p)
        = asin q @ ''||'' @ (category_name q @ ''||'' @ raas_plan q @ ''||'' @ start_date q)"
      by simp_all
    from delim_split_unique [OF fp(3) fq(3) k3]
    have e3: "asin p = asin q"
      and k4: "category_name p @ ''||'' @ (raas_plan p @ ''||'' @ start_date p)
        = category_name q @ ''||'' @ (raas_plan q @ ''||'' @ start_date q)"
      by simp_all
    from delim_split_unique [OF fp(4) fq(4) k4]
    have e4: "category_name p = category_name q"
      and k5: "raas_plan p @ ''||'' @ start_date p = raas_plan q @ ''||'' @ start_date q"
      by simp_all
    from delim_split_unique [OF fp(5) fq(5) k5]
    have e5: "raas_plan p = raas_plan q" and e6: "start_date p = start_date q"
      by simp_all
    from e1 e2 e3 e4 e5 e6 have "same_identity p q"
      by (simp add: same_identity_def)
    with h show False by simp
  qed
qed

theorem compositeKey_injective_witness:
  "same_identity
     \<lparr>amazon_profile_name = ''Acme US'', hanna_org_name = ''Acme'', asin = '''',
      category_name = ''Toys'', raas_plan = ''Climb Plan'', start_date = ''2024-01-01'',
      marketplace = None\<rparr>
     \<lparr>amazon_profile_name = ''Acme US'', hanna_org_name = ''Acme'', asin = '''',
      category_name = ''Toys'', raas_plan = ''Climb Plan'', start_date = ''2024-01-01'',
      marketplace = Some ''US''\<rparr>
   \<and> compositeKey
       \<lparr>amazon_profile_name = ''Acme US'', hanna_org_name = ''Acme'', asin = '''',
        category_name = ''Toys'', raas_plan = ''Climb Plan'', start_date = ''2024-01-01'',
        marketplace = None\<rparr>
     = compositeKey
       \<lparr>amazon_profile_name = ''Acme US'', hanna_org_name = ''Acme'', asin = '''',
        category_name = ''Toys'', raas_plan = ''Climb Plan'', start_date = ''2024-01-01'',
        marketplace = Some ''US''\<rparr>
   \<and> key_fields_delim_free
       \<lparr>amazon_profile_name = ''Acme US'', hanna_org_name = ''Acme'', asin = '''',
        category_name = ''Toys'', raas_plan = ''Climb Plan'', start_date = ''2024-01-01'',
        marketplace = None\<rparr>
   \<and> key_fields_delim_free
       \<lparr>amazon_profile_name = ''Acme US'', hanna_org_name = ''Acme'', asin = ''B01'',
        category_name = ''Toys'', raas_plan = ''Climb Plan'', start_date = ''2024-01-01'',
        marketplace = None\<rparr>
   \<and> \<not> same_identity
       \<lparr>amazon_profile_name = ''Acme US'', hanna_org_name = ''Acme'', asin = '''',
        category_name = ''Toys'', raas_plan = ''Climb Plan'', start_date = ''2024-01-01'',
        marketplace = None\<rparr>
       \<lparr>amazon_profile_name = ''Acme US'', hanna_org_name = ''Acme'', asin = ''B01'',
        category_name = ''Toys'', raas_plan = ''Climb Plan'', start_date = ''2024-01-01'',
        marketplace = None\<rparr>
   \<and> compositeKey
       \<lparr>amazon_profile_name = ''Acme US'', hanna_org_name = ''Acme'', asin = '''',
        category_name = ''Toys'', raas_plan = ''Climb Plan'', start_date = ''2024-01-01'',
        marketplace = None\<rparr>
     \<noteq> compositeKey
       \<lparr>amazon_profile_name = ''Acme US'', hanna_org_name = ''Acme'', asin = ''B01'',
        category_name = ''Toys'', raas_plan = ''Climb Plan'', start_date = ''2024-01-01'',
        marketplace = None\<rparr>"
proof -
  let ?p = "\<lparr>amazon_profile_name = ''Acme US'', hanna_org_name = ''Acme'', asin = '''',
        category_name = ''Toys'', raas_plan = ''Climb Plan'', start_date = ''2024-01-01'',
        marketplace = None\<rparr>"
  let ?p' = "\<lparr>amazon_profile_name = ''Acme US'', hanna_org_name = ''Acme'', asin = '''',
        category_name = ''Toys'', raas_plan = ''Climb Plan'', start_date = ''2024-01-01'',
        marketplace = Some ''US''\<rparr>"
  let ?q = "\<lparr>amazon_profile_name = ''Acme US'', hanna_org_name = ''Acme'', asin = ''B01'',
        category_name = ''Toys'', raas_plan = ''Climb Plan'', start_date = ''2024-01-01'',
        marketplace = None\<rparr>"
  have same: "same_identity ?p ?p'"
    by (simp add: same_identity_def)
  have free: "key_fields_delim_free ?p" "key_fields_delim_free ?q"
    by (simp_all add: key_fields_delim_free_def)
  have diff: "\<not> same_identity ?p ?q"
    by (simp add: same_identity_def)
  from compositeKey_injective [of ?p ?p'] same
  have eq: "compositeKey ?p = compositeKey ?p'" by blast
  from compositeKey_injective [of ?p ?q] free diff
  have neq: "compositeKey ?p \<noteq> compositeKey ?q" by blast
  from same eq free diff neq show ?thesis by blast
qed

subsection \<open>Filters and query parameters\<close>

text \<open>The keys of the filter that \<^verbatim>\<open>queryParams\<close> copies.\<close>

lemma queryParams_fold_keys:
  "set (obj_keys
     (fold (\<lambda>key params.
              let v = obj_get F key
              in if key \<noteq> ''ad_window'' \<and> v \<noteq> JUndefined \<and> v \<noteq> JNull \<and> v \<noteq> JString ''''
                 then obj_set params key v else params) ks acc))
   = set (obj_keys acc)
     \<union> {k \<in> set ks. k \<noteq> ''ad_window'' \<and> obj_get F k \<noteq> JUndefined \<and> obj_get F k \<noteq> JNull
                      \<and> obj_get F k \<noteq> JString ''''}"
proof (induction ks arbitrary: acc)
  case Nil
  show ?case by simp
next
  case (Cons k ks)
  show ?case
    by (simp only: fold_simps Cons.IH) (auto simp: Let_def obj_keys_set)
qed

lemma queryParams_keys:
  "set (obj_keys (queryParams F pg))
   = {''page'', ''page_size''}
     \<union> {k \<in> set (obj_keys F). k \<noteq> ''ad_window'' \<and> obj_get F k \<noteq> JUndefined
                              \<and> obj_get F k \<noteq> JNull \<and> obj_get F k \<noteq> JString ''''}"
  unfolding queryParams_def queryParams_fold_keys
  by (simp add: obj_keys_def)




text \<open>
  C2. For every filter object and every pagination state the parameters
  \<^verbatim>\<open>queryParams\<close> derives have no \<^verbatim>\<open>ad_window\<close> key, whatever the filter holds under
  that key; and whatever parameters \<^verbatim>\<open>useGetProductProgress\<close> is given, the request it
  sends to \<^verbatim>\<open>/product-progress\<close> has no \<^verbatim>\<open>ad_window\<close> parameter.
\<close>

theorem ad_window_never_sent:
  "''ad_window'' \<notin> set (obj_keys (queryParams F pg))
   \<and> ''ad_window'' \<notin> set (obj_keys (params (useGetProductProgress rawParams)))
   \<and> ''ad_window'' \<notin> set (obj_keys (params (useGetProductProgress (queryParams F pg))))
   \<and> url (useGetProductProgress (queryParams F pg)) = ''/product-progress''"
  by (simp add: queryParams_keys useGetProductProgress_def obj_keys_omit)




subsection \<open>The add and edit modal\<close>

text \<open>
  The two conversions on the values of the examples, and on a fraction between 0 and
  2.5: neither overflows, and each is off by at most the rounding of its range.
\<close>

lemma js_div_25: "js_div (Num 25) (Num 100) = Num (1 / 4)"
proof -
  have "to_number (25 / 100) = Num (1 / 4)"
    using to_number_finite [of "1 / 4"] by (simp add: round_quarter)
  then show ?thesis by simp
qed

lemma js_mul_quarter: "js_mul (Num (1 / 4)) (Num 100) = Num 25"
proof -
  have "to_number (1 / 4 * 100) = Num 25"
    using to_number_finite [of 25] by (simp add: round_25)
  then show ?thesis by simp
qed

lemma pow2_minus_46: "(2::rat) powi (- 46) = 1 / 2 ^ 46"
  by (simp add: power_int_def power_divide)

lemma pow2_minus_52: "(2::rat) powi (- 52) = 1 / 2 ^ 52"
  by (simp add: power_int_def power_divide)

lemma js_mul_7_1000:
  "js_mul (Num (8070450532247929 / 2 ^ 60)) (Num 100) = Num (6305039478318695 / 2 ^ 53)"
proof -
  have "to_number (8070450532247929 / 2 ^ 60 * 100) = Num (6305039478318695 / 2 ^ 53)"
    using to_number_finite [of "8070450532247929 / 2 ^ 60 * 100"]
    by (simp only: round_times_100) simp
  then show ?thesis by (simp only: js_mul.simps)
qed

lemma js_div_7_10:
  "js_div (Num (6305039478318695 / 2 ^ 53)) (Num 100) = Num (4035225266123965 / 2 ^ 59)"
proof -
  have "to_number (6305039478318695 / 2 ^ 53 / 100) = Num (4035225266123965 / 2 ^ 59)"
    using to_number_finite [of "6305039478318695 / 2 ^ 53 / 100"]
    by (simp only: round_over_100) simp
  then show ?thesis by (simp only: js_div.simps) simp
qed

lemma edit_then_submit:
  "target_acos (snd (handleModalOk (handleEdit (row\<lparr>target_acos := Value x\<rparr>) st)))
     = Value (js_div (js_mul x (Num 100)) (Num 100))"
  by (simp add: handleModalOk_def handleEdit_def)

lemma times_100:
  assumes "0 \<le> x" "x \<le> 5 / 2"
  shows "js_mul (Num x) (Num 100) = Num (round_to_double (x * 100))"
    and "0 \<le> round_to_double (x * 100)"
    and "\<bar>round_to_double (x * 100) - x * 100\<bar> \<le> 1 / 2 ^ 46"
proof -
  from assms have r: "0 \<le> x * 100" "x * 100 < 2 powi 8" by (simp_all add: power_int_def)
  from round_to_double_error [OF r] show e: "\<bar>round_to_double (x * 100) - x * 100\<bar> \<le> 1 / 2 ^ 46"
    by (simp add: pow2_minus_46)
  from round_to_double_nonneg [OF r(1)] show n: "0 \<le> round_to_double (x * 100)" .
  have "(1 :: rat) / 2 ^ 46 \<le> 1" by simp
  with e assms have "round_to_double (x * 100) \<le> 251" by linarith
  with n have "- (2 ^ 1024) < round_to_double (x * 100)" "round_to_double (x * 100) < 2 ^ 1024"
    by simp_all
  then show "js_mul (Num x) (Num 100) = Num (round_to_double (x * 100))"
    by (simp add: to_number_finite)
qed

lemma over_100:
  assumes "0 \<le> p" "p \<le> 251"
  shows "js_div (Num p) (Num 100) = Num (round_to_double (p / 100))"
    and "\<bar>round_to_double (p / 100) - p / 100\<bar> \<le> 1 / 2 ^ 52"
proof -
  from assms have r: "0 \<le> p / 100" "p / 100 < 2 powi 2" by (simp_all add: power_int_def)
  from round_to_double_error [OF r] show e: "\<bar>round_to_double (p / 100) - p / 100\<bar> \<le> 1 / 2 ^ 52"
    by (simp add: pow2_minus_52)
  have "(1 :: rat) / 2 ^ 52 \<le> 1" by simp
  with e assms have "round_to_double (p / 100) \<le> 4" by linarith
  with round_to_double_nonneg [OF r(1)]
  have "- (2 ^ 1024) < round_to_double (p / 100)" "round_to_double (p / 100) < 2 ^ 1024"
    by simp_all
  then show "js_div (Num p) (Num 100) = Num (round_to_double (p / 100))"
    by (simp add: to_number_finite)
qed

text \<open>
  C4. Submitting the form, whether it creates or edits, sends the form's
  \<^verbatim>\<open>target_acos\<close> divided by 100, once: 25 is sent as 0.25; a null is sent as null,
  not as 0.
  Loading a row into the edit form multiplies a stored \<^verbatim>\<open>target_acos\<close> by 100, once:
  0.25 is shown as 25; a null stays null.
\<close>

theorem target_acos_conversion:
  "target_acos (snd (handleModalOk (st\<lparr>formData := (formData st)\<lparr>target_acos := Value v\<rparr>\<rparr>)))
     = Value (js_div v (Num 100))
   \<and> target_acos (snd (handleModalOk (st\<lparr>formData := (formData st)\<lparr>target_acos := Value (Num 25)\<rparr>\<rparr>)))
     = Value (Num (1 / 4))
   \<and> target_acos (snd (handleModalOk (st\<lparr>formData := (formData st)\<lparr>target_acos := Null\<rparr>\<rparr>)))
     = Null
   \<and> target_acos (snd (handleModalOk (st\<lparr>formData := (formData st)\<lparr>target_acos := Null\<rparr>\<rparr>)))
     \<noteq> Value (Num 0)
   \<and> fst (handleModalOk st) = (if isEditing st then UpdateProduct else CreateProduct)
   \<and> target_acos (formData (handleEdit (row\<lparr>target_acos := Value x\<rparr>) st))
     = Value (js_mul x (Num 100))
   \<and> target_acos (formData (handleEdit (row\<lparr>target_acos := Value (Num (1 / 4))\<rparr>) st))
     = Value (Num 25)
   \<and> target_acos (formData (handleEdit (row\<lparr>target_acos := Null\<rparr>) st)) = Null"
  by (simp add: handleModalOk_def handleEdit_def js_div_25 js_mul_quarter
      del: js_div.simps js_mul.simps)

text \<open>
  C5 (as stated). A stored fraction loaded into the edit form and submitted unchanged
  comes back exactly. It does not for the double nearest to 0.007, a fraction in
  \<open>[0, 2.5]\<close>: times 100 it rounds to the double above 0.7, and that over 100 rounds to
  the double after the one it started from.
\<close>

theorem acos_round_trip_inexact:
  "round_to_double (7 / 1000) = 8070450532247929 / 2 ^ 60
   \<and> (0 :: rat) \<le> 8070450532247929 / 2 ^ 60 \<and> (8070450532247929 / 2 ^ 60 :: rat) \<le> 5 / 2
   \<and> target_acos (snd (handleModalOk (handleEdit
        (example_row\<lparr>target_acos := Value (Num (8070450532247929 / 2 ^ 60))\<rparr>) example_modal)))
     = Value (Num (4035225266123965 / 2 ^ 59))
   \<and> target_acos (snd (handleModalOk (handleEdit
        (example_row\<lparr>target_acos := Value (Num (8070450532247929 / 2 ^ 60))\<rparr>) example_modal)))
     \<noteq> Value (Num (8070450532247929 / 2 ^ 60))"
proof -
  have a: "(0 :: rat) \<le> 8070450532247929 / 2 ^ 60 \<and> (8070450532247929 / 2 ^ 60 :: rat) \<le> 5 / 2"
    by simp
  have b: "target_acos (snd (handleModalOk (handleEdit
        (example_row\<lparr>target_acos := Value (Num (8070450532247929 / 2 ^ 60))\<rparr>) example_modal)))
     = Value (Num (4035225266123965 / 2 ^ 59))"
    by (simp only: edit_then_submit js_mul_7_1000 js_div_7_10)
  have c: "(Value (Num (4035225266123965 / 2 ^ 59)) :: number nullable)
      \<noteq> Value (Num (8070450532247929 / 2 ^ 60))"
    by simp
  from round_7_1000 a b c show ?thesis by (simp only:) simp
qed

text \<open>
  C5 (amended). For every stored fraction \<open>x\<close> in \<open>[0, 2.5]\<close>, loading it into the edit
  form and submitting it unchanged sends a number within \<open>2^(-51)\<close> of \<open>x\<close>: each of the
  two operations rounds its result to a double. The value 0.25 comes back exactly.
\<close>

theorem acos_round_trip_close:
  "(0 \<le> x \<and> x \<le> 5 / 2
      \<longrightarrow> (\<exists>y. target_acos (snd (handleModalOk (handleEdit (row\<lparr>target_acos := Value (Num x)\<rparr>) st)))
                 = Value (Num y)
               \<and> \<bar>y - x\<bar> \<le> 1 / 2 ^ 51))
   \<and> target_acos (snd (handleModalOk (handleEdit (row\<lparr>target_acos := Value (Num (1 / 4))\<rparr>) st)))
     = Value (Num (1 / 4))"
proof
  show "0 \<le> x \<and> x \<le> 5 / 2
      \<longrightarrow> (\<exists>y. target_acos (snd (handleModalOk (handleEdit (row\<lparr>target_acos := Value (Num x)\<rparr>) st)))
                 = Value (Num y)
               \<and> \<bar>y - x\<bar> \<le> 1 / 2 ^ 51)"
  proof
    assume h: "0 \<le> x \<and> x \<le> 5 / 2"
    define p where "p = round_to_double (x * 100)"
    define y where "y = round_to_double (p / 100)"
    from h times_100 [of x]
    have m: "js_mul (Num x) (Num 100) = Num p" and p0: "0 \<le> p"
      and pe: "\<bar>p - x * 100\<bar> \<le> 1 / 2 ^ 46"
      by (simp_all add: p_def)
    have "(1 :: rat) / 2 ^ 46 \<le> 1" by simp
    with pe h have "p \<le> 251" by linarith
    with p0 over_100 [of p]
    have d: "js_div (Num p) (Num 100) = Num y" and ye: "\<bar>y - p / 100\<bar> \<le> 1 / 2 ^ 52"
      by (simp_all add: y_def)
    define u where "u = (1 :: rat) / 2 ^ 46"
    define w where "w = (1 :: rat) / 2 ^ 52"
    from pe have "\<bar>p - x * 100\<bar> \<le> u" by (simp only: u_def)
    then have "\<bar>p / 100 - x\<bar> \<le> u / 100" by linarith
    moreover from ye have "\<bar>y - p / 100\<bar> \<le> w" by (simp only: w_def)
    ultimately have "\<bar>y - x\<bar> \<le> w + u / 100" by linarith
    also have "\<dots> \<le> 1 / 2 ^ 51" by (simp add: u_def w_def)
    finally have "\<bar>y - x\<bar> \<le> 1 / 2 ^ 51" .
    moreover from m d
    have "target_acos (snd (handleModalOk (handleEdit (row\<lparr>target_acos := Value (Num x)\<rparr>) st)))
        = Value (Num y)"
      by (simp only: edit_then_submit)
    ultimately show "\<exists>y. target_acos (snd (handleModalOk (handleEdit (row\<lparr>target_acos := Value (Num x)\<rparr>) st)))
                 = Value (Num y)
               \<and> \<bar>y - x\<bar> \<le> 1 / 2 ^ 51"
      by blast
  qed
next
  show "target_acos (snd (handleModalOk (handleEdit (row\<lparr>target_acos := Value (Num (1 / 4))\<rparr>) st)))
     = Value (Num (1 / 4))"
    by (simp add: edit_then_submit js_div_25 js_mul_quarter del: js_div.simps js_mul.simps)
qed

theorem acos_round_trip_close_witness:
  "(0 :: rat) \<le> 8070450532247929 / 2 ^ 60 \<and> (8070450532247929 / 2 ^ 60 :: rat) \<le> 5 / 2
   \<and> (\<exists>y. target_acos (snd (handleModalOk (handleEdit
              (example_row\<lparr>target_acos := Value (Num (8070450532247929 / 2 ^ 60))\<rparr>)
              example_modal)))
            = Value (Num y)
          \<and> \<bar>y - 8070450532247929 / 2 ^ 60\<bar> \<le> 1 / 2 ^ 51)"
proof -
  have a: "(0 :: rat) \<le> 8070450532247929 / 2 ^ 60 \<and> (8070450532247929 / 2 ^ 60 :: rat) \<le> 5 / 2"
    by simp
  from acos_round_trip_close [of "8070450532247929 / 2 ^ 60" example_row example_modal] a
  show ?thesis by blast
qed

subsection \<open>Manual refresh\<close>

lemma disabled_no_request:
  "isUpdateDisabled now st \<Longrightarrow>
     fst (handleUpdateData now st) = st \<and> \<not> list_ex is_send (snd (handleUpdateData now st))"
  by (simp add: handleUpdateData_def Let_def split: elapsed.split)

lemma within_interval_disabled:
  assumes "last_updated_at st = Some (TimeMs T)" and "now < T + 30000"
  shows "isUpdateDisabled now st"
proof -
  from assms(2) have "(now - T) div 1000 < 30" by linarith
  with assms(1) show ?thesis
    by (simp add: isUpdateDisabled_def timeSinceLastUpdate_def MIN_UPDATE_INTERVAL_def)
qed

text \<open>
  C6. When the last known update is at \<open>T\<close> and the click comes less than 30 seconds
  after \<open>T\<close>, \<^verbatim>\<open>handleUpdateData\<close> sends no request and leaves the state as it is; and
  so it does while a trigger is in flight (the mutation is pending, or
  \<^verbatim>\<open>hasTriggeredUpdate\<close> is set) and while the cooldown counts down.
\<close>

theorem refresh_guard:
  "(last_updated_at st = Some (TimeMs T) \<and> now < T + 30000
      \<longrightarrow> fst (handleUpdateData now st) = st
          \<and> \<not> list_ex is_send (snd (handleUpdateData now st)))
   \<and> (isUpdating st \<or> hasTriggeredUpdate st \<or> 0 < updateCooldownRemaining st
      \<longrightarrow> fst (handleUpdateData now st) = st
          \<and> \<not> list_ex is_send (snd (handleUpdateData now st)))"
proof -
  have near: "fst (handleUpdateData now st) = st
      \<and> \<not> list_ex is_send (snd (handleUpdateData now st))"
    if "last_updated_at st = Some (TimeMs T) \<and> now < T + 30000"
  proof -
    from that have "isUpdateDisabled now st" by (simp add: within_interval_disabled)
    then show ?thesis by (rule disabled_no_request)
  qed
  have busy: "fst (handleUpdateData now st) = st
      \<and> \<not> list_ex is_send (snd (handleUpdateData now st))"
    if "isUpdating st \<or> hasTriggeredUpdate st \<or> 0 < updateCooldownRemaining st"
  proof -
    from that have "isUpdateDisabled now st"
      by (auto simp: isUpdateDisabled_def isInCooldown_def)
    then show ?thesis by (rule disabled_no_request)
  qed
  from near busy show ?thesis by blast
qed

text \<open>
  With the last update at 1700000000000 ms: a click 10 seconds later sends nothing and
  shows the notification; a click during a cooldown sends nothing, long after the last
  update though it is; a click 500 seconds after the update, with no cooldown, sends the
  trigger.
\<close>

theorem refresh_guard_witness:
  "last_updated_at example_refresh = Some (TimeMs 1700000000000)
   \<and> (1700000010000 :: int) < 1700000000000 + 30000
   \<and> snd (handleUpdateData 1700000010000 example_refresh)
       = [Toast ToastInfo ''raas.messages.updateTooFrequent'']
   \<and> \<not> list_ex is_send (snd (handleUpdateData 1700000010000 example_refresh))
   \<and> 0 < updateCooldownRemaining
        (example_refresh\<lparr>updateCooldownRemaining := 42, updateCooldownTimer := True\<rparr>)
   \<and> \<not> list_ex is_send (snd (handleUpdateData 1700000500000
        (example_refresh\<lparr>updateCooldownRemaining := 42, updateCooldownTimer := True\<rparr>)))
   \<and> snd (handleUpdateData 1700000500000 example_refresh) = [Send post_progress_update]"
proof -
  let ?c = "example_refresh\<lparr>updateCooldownRemaining := 42, updateCooldownTimer := True\<rparr>"
  have a: "last_updated_at example_refresh = Some (TimeMs 1700000000000)
      \<and> (1700000010000 :: int) < 1700000000000 + 30000"
    by (simp add: example_refresh_def)
  have b: "0 < updateCooldownRemaining ?c" by simp
  from refresh_guard [of example_refresh 1700000000000 1700000010000] a
  have c: "\<not> list_ex is_send (snd (handleUpdateData 1700000010000 example_refresh))" by blast
  from refresh_guard [of ?c _ 1700000500000] b
  have d: "\<not> list_ex is_send (snd (handleUpdateData 1700000500000 ?c))" by blast
  have e: "snd (handleUpdateData 1700000010000 example_refresh)
      = [Toast ToastInfo ''raas.messages.updateTooFrequent'']"
    by (simp add: example_refresh_def handleUpdateData_def isUpdateDisabled_def isInCooldown_def
        timeSinceLastUpdate_def MIN_UPDATE_INTERVAL_def UPDATE_COOLDOWN_SECONDS_def)
  have f: "snd (handleUpdateData 1700000500000 example_refresh) = [Send post_progress_update]"
    by (simp add: example_refresh_def handleUpdateData_def isUpdateDisabled_def isInCooldown_def
        timeSinceLastUpdate_def MIN_UPDATE_INTERVAL_def)
  from a b c d e f show ?thesis by blast
qed

subsection \<open>HTTP client\<close>

text \<open>
  C7. For an error whose response has status 401 the interceptor clears the
  authentication store once and navigates to \<^verbatim>\<open>/auth/sign-in\<close> once (through the router
  when one is set, through \<^verbatim>\<open>window.location\<close> otherwise), sends no request, and
  rejects with the error. For any other error, and for a fulfilled response, it does
  nothing of the kind.
\<close>

theorem unauthorized_teardown:
  "(response_status error = Some 401
      \<longrightarrow> count_list (fst (on_response_error globalRouter error)) ClearAuth = 1
          \<and> navigations (fst (on_response_error globalRouter error)) = [''/auth/sign-in'']
          \<and> length (fst (on_response_error globalRouter error)) = 2)
   \<and> (response_status error \<noteq> Some 401
      \<longrightarrow> \<not> list_ex is_teardown (fst (on_response_error globalRouter error)))
   \<and> \<not> list_ex is_send (fst (on_response_error globalRouter error))
   \<and> snd (on_response_error globalRouter error) = Inl error
   \<and> \<not> list_ex is_teardown (fst (on_response r))"
  by (simp add: on_response_error_def on_response_def)

theorem unauthorized_teardown_witness:
  "response_status \<lparr>response = Some \<lparr>http_status = 401\<rparr>\<rparr> = Some 401
   \<and> fst (on_response_error True \<lparr>response = Some \<lparr>http_status = 401\<rparr>\<rparr>)
       = [ClearAuth, RouterPush ''/auth/sign-in'']
   \<and> count_list (fst (on_response_error True \<lparr>response = Some \<lparr>http_status = 401\<rparr>\<rparr>))
         ClearAuth = 1
   \<and> navigations (fst (on_response_error True \<lparr>response = Some \<lparr>http_status = 401\<rparr>\<rparr>))
       = [''/auth/sign-in'']
   \<and> response_status \<lparr>response = Some \<lparr>http_status = 403\<rparr>\<rparr> \<noteq> Some 401
   \<and> \<not> list_ex is_teardown
         (fst (on_response_error True \<lparr>response = Some \<lparr>http_status = 403\<rparr>\<rparr>))
   \<and> response_status \<lparr>response = None\<rparr> \<noteq> Some 401
   \<and> \<not> list_ex is_teardown (fst (on_response_error False \<lparr>response = None\<rparr>))"
proof -
  let ?e = "\<lparr>response = Some \<lparr>http_status = 401\<rparr>\<rparr>"
  let ?f = "\<lparr>response = Some \<lparr>http_status = 403\<rparr>\<rparr>"
  let ?n = "\<lparr>response = None\<rparr>"
  have a: "response_status ?e = Some 401"
    and b: "response_status ?f \<noteq> Some 401"
    and c: "response_status ?n \<noteq> Some 401"
    by (simp_all add: response_status_def)
  have d: "fst (on_response_error True ?e) = [ClearAuth, RouterPush ''/auth/sign-in'']"
    by (simp add: on_response_error_def response_status_def)
  from unauthorized_teardown [of ?e True] a
  have e: "count_list (fst (on_response_error True ?e)) ClearAuth = 1
      \<and> navigations (fst (on_response_error True ?e)) = [''/auth/sign-in'']"
    by blast
  from unauthorized_teardown [of ?f True] b
  have f: "\<not> list_ex is_teardown (fst (on_response_error True ?f))" by blast
  from unauthorized_teardown [of ?n False] c
  have g: "\<not> list_ex is_teardown (fst (on_response_error False ?n))" by blast
  from a b c d e f g show ?thesis by blast
qed

subsection \<open>Row selection\<close>





subsection \<open>Mutations\<close>

text \<open>
  C9 (as stated). After every successful mutation the three queries are invalidated.
  They are not when the post to \<^verbatim>\<open>/progress/update\<close> is rejected: the handler awaits
  the post, and the timer is never set.
\<close>

theorem no_invalidation_when_trigger_fails:
  "\<not> list_ex (\<lambda>(t, e). is_invalidation e) (mutation_onSuccess CreateProduct 0 150 Rejected)
   \<and> \<not> list_ex (\<lambda>(t, e). is_invalidation e) (mutation_onSuccess UpdateProduct 0 150 Rejected)
   \<and> \<not> list_ex (\<lambda>(t, e). is_invalidation e) (mutation_onSuccess CancelProduct 0 150 Rejected)"
  by (simp add: mutation_onSuccess_def useCreateProduct_onSuccess_def
      useUpdateProduct_onSuccess_def useCancelProduct_onSuccess_def)

text \<open>
  C9 (amended). After a successful create, update or cancel the client first posts to
  \<^verbatim>\<open>/progress/update\<close> and awaits the response. If the post succeeds, then 2000 ms
  after its response the client invalidates the queries \<^verbatim>\<open>products\<close>,
  \<^verbatim>\<open>productProgress\<close> and \<^verbatim>\<open>lastUpdateTime\<close>, these three and no other; if the post
  fails, nothing is invalidated. In both cases every invalidation comes after the post,
  in order and by at least 2000 ms.
\<close>

theorem invalidation_after_trigger:
  "mutation_onSuccess m now latency Fulfilled
     = [(now, Send post_progress_update),
        (now + int latency + 2000, InvalidateQueries ''products''),
        (now + int latency + 2000, InvalidateQueries ''productProgress''),
        (now + int latency + 2000, InvalidateQueries ''lastUpdateTime'')]
   \<and> mutation_onSuccess m now latency Rejected = [(now, Send post_progress_update)]
   \<and> (i < length (mutation_onSuccess m now latency outcome)
        \<and> is_invalidation (snd (mutation_onSuccess m now latency outcome ! i))
      \<longrightarrow> 0 < i
          \<and> mutation_onSuccess m now latency outcome ! 0 = (now, Send post_progress_update)
          \<and> now + 2000 \<le> fst (mutation_onSuccess m now latency outcome ! i))"
proof -
  have eq: "mutation_onSuccess m now latency outcome
      = (now, Send post_progress_update) #
        (case outcome of Rejected \<Rightarrow> []
         | Fulfilled \<Rightarrow> invalidate_after_delay (now + int latency))"
    by (cases m) (simp_all add: mutation_onSuccess_def useCreateProduct_onSuccess_def
        useUpdateProduct_onSuccess_def useCancelProduct_onSuccess_def)
  have ok: "mutation_onSuccess m now latency Fulfilled
     = [(now, Send post_progress_update),
        (now + int latency + 2000, InvalidateQueries ''products''),
        (now + int latency + 2000, InvalidateQueries ''productProgress''),
        (now + int latency + 2000, InvalidateQueries ''lastUpdateTime'')]"
    by (cases m) (simp_all add: mutation_onSuccess_def useCreateProduct_onSuccess_def
        useUpdateProduct_onSuccess_def useCancelProduct_onSuccess_def
        invalidate_after_delay_def)
  have ko: "mutation_onSuccess m now latency Rejected = [(now, Send post_progress_update)]"
    by (cases m) (simp_all add: mutation_onSuccess_def useCreateProduct_onSuccess_def
        useUpdateProduct_onSuccess_def useCancelProduct_onSuccess_def)
  have order: "0 < i
      \<and> mutation_onSuccess m now latency outcome ! 0 = (now, Send post_progress_update)
      \<and> now + 2000 \<le> fst (mutation_onSuccess m now latency outcome ! i)"
    if h: "i < length (mutation_onSuccess m now latency outcome)
        \<and> is_invalidation (snd (mutation_onSuccess m now latency outcome ! i))"
  proof (cases outcome)
    case Rejected
    with h ko show ?thesis by auto
  next
    case Fulfilled
    with h ok have "i < 4" by simp
    then have "i = 0 \<or> i = 1 \<or> i = 2 \<or> i = 3" by arith
    with h Fulfilled ok show ?thesis by auto
  qed
  from ok ko order show ?thesis by blast
qed

theorem invalidation_after_trigger_witness:
  "(2 :: nat) < length (mutation_onSuccess UpdateProduct 1000 150 Fulfilled)
   \<and> is_invalidation (snd (mutation_onSuccess UpdateProduct 1000 150 Fulfilled ! 2))
   \<and> mutation_onSuccess UpdateProduct 1000 150 Fulfilled ! 0 = (1000, Send post_progress_update)
   \<and> mutation_onSuccess UpdateProduct 1000 150 Fulfilled ! 2
       = (3150, InvalidateQueries ''productProgress'')
   \<and> (1000 :: int) + 2000 \<le> fst (mutation_onSuccess UpdateProduct 1000 150 Fulfilled ! 2)"
proof -
  have l: "mutation_onSuccess UpdateProduct 1000 150 Fulfilled
     = [(1000, Send post_progress_update), (3150, InvalidateQueries ''products''),
        (3150, InvalidateQueries ''productProgress''),
        (3150, InvalidateQueries ''lastUpdateTime'')]"
    using invalidation_after_trigger [of UpdateProduct 1000 150] by simp
  have a: "(2 :: nat) < length (mutation_onSuccess UpdateProduct 1000 150 Fulfilled)
      \<and> is_invalidation (snd (mutation_onSuccess UpdateProduct 1000 150 Fulfilled ! 2))"
    by (simp add: l)
  from invalidation_after_trigger [of UpdateProduct 1000 150 2 Fulfilled] a
  have b: "mutation_onSuccess UpdateProduct 1000 150 Fulfilled ! 0
        = (1000, Send post_progress_update)
      \<and> (1000 :: int) + 2000 \<le> fst (mutation_onSuccess UpdateProduct 1000 150 Fulfilled ! 2)"
    by blast
  have c: "mutation_onSuccess UpdateProduct 1000 150 Fulfilled ! 2
       = (3150, InvalidateQueries ''productProgress'')"
    by (simp add: l)
  from a b c show ?thesis by blast
qed

subsection \<open>Windowed advertising metrics\<close>

text \<open>
  C10. When the filter has no \<^verbatim>\<open>ad_window\<close>, or one that is none of \<^verbatim>\<open>7d\<close>,
  \<^verbatim>\<open>14d\<close> and \<^verbatim>\<open>rt\<close>, the metrics displayed for a row are its 30-day fields.
\<close>

theorem getAdData_default_30d:
  "obj_get filters ''ad_window'' \<noteq> JString ''7d''
   \<and> obj_get filters ''ad_window'' \<noteq> JString ''14d''
   \<and> obj_get filters ''ad_window'' \<noteq> JString ''rt''
   \<longrightarrow> getAdData filters p
       = \<lparr>ad_spend = ad_spend_30d p, ad_sales = ad_sales_30d p,
          ad_orders = ad_orders_30d p, acos = acos_30d p\<rparr>"
  by (simp add: getAdData_def currentAdWindow_def js_or_def product_get_def Let_def)

theorem getAdData_default_30d_witness:
  "obj_get [] ''ad_window'' \<noteq> JString ''7d''
   \<and> obj_get [] ''ad_window'' \<noteq> JString ''14d''
   \<and> obj_get [] ''ad_window'' \<noteq> JString ''rt''
   \<and> getAdData [] example_row
       = \<lparr>ad_spend = Some (Num 300), ad_sales = Some (Num 1200),
          ad_orders = Some (Num 30), acos = Some (Num (1 / 4))\<rparr>
   \<and> obj_get [(''ad_window'', JString ''90d'')] ''ad_window'' \<noteq> JString ''7d''
   \<and> obj_get [(''ad_window'', JString ''90d'')] ''ad_window'' \<noteq> JString ''14d''
   \<and> obj_get [(''ad_window'', JString ''90d'')] ''ad_window'' \<noteq> JString ''rt''
   \<and> getAdData [(''ad_window'', JString ''90d'')] example_row
       = \<lparr>ad_spend = Some (Num 300), ad_sales = Some (Num 1200),
          ad_orders = Some (Num 30), acos = Some (Num (1 / 4))\<rparr>"
proof -
  have a: "obj_get [] ''ad_window'' \<noteq> JString ''7d''
      \<and> obj_get [] ''ad_window'' \<noteq> JString ''14d''
      \<and> obj_get [] ''ad_window'' \<noteq> JString ''rt''"
    by (simp add: obj_get_def)
  have b: "obj_get [(''ad_window'', JString ''90d'')] ''ad_window'' \<noteq> JString ''7d''
      \<and> obj_get [(''ad_window'', JString ''90d'')] ''ad_window'' \<noteq> JString ''14d''
      \<and> obj_get [(''ad_window'', JString ''90d'')] ''ad_window'' \<noteq> JString ''rt''"
    by (simp add: obj_get_def)
  have c: "\<lparr>ad_spend = ad_spend_30d example_row, ad_sales = ad_sales_30d example_row,
          ad_orders = ad_orders_30d example_row, acos = acos_30d example_row\<rparr>
      = \<lparr>ad_spend = Some (Num 300), ad_sales = Some (Num 1200),
          ad_orders = Some (Num 30), acos = Some (Num (1 / 4))\<rparr>"
    by (simp add: example_row_def)
  from getAdData_default_30d [of "[]" example_row] a c
  have d: "getAdData [] example_row
       = \<lparr>ad_spend = Some (Num 300), ad_sales = Some (Num 1200),
          ad_orders = Some (Num 30), acos = Some (Num (1 / 4))\<rparr>"
    by simp
  from getAdData_default_30d [of "[(''ad_window'', JString ''90d'')]" example_row] b c
  have e: "getAdData [(''ad_window'', JString ''90d'')] example_row
       = \<lparr>ad_spend = Some (Num 300), ad_sales = Some (Num 1200),
          ad_orders = Some (Num 30), acos = Some (Num (1 / 4))\<rparr>"
    by simp
  from a b d e show ?thesis by blast
qed

end
